theory Spec2Isabelle
  imports Complex_Main "HOL-Library.Product_Lexorder" "HOL-Library.Monad_Syntax"
    "HOL-Library.Multiset"
begin

section \<open>solarWeather.py: the solar X-ray flux pipeline\<close>

text \<open>
  A shallow embedding of \<^verbatim>\<open>src/solarWeather.py\<close>. Exceptions are values of the type
  \<open>pyerror\<close>; a function that can raise returns \<open>pyerror + 'a\<close>. Python's floats are
  IEEE 754 doubles, and are modelled as such: a finite float is the real number it
  stands for, an operation rounds its exact result to the nearest double, and the
  infinities and \<^verbatim>\<open>nan\<close> are values of their own.
\<close>

subsection \<open>Python's library, as far as the program uses it\<close>

datatype pyerror = ValueError | TypeError | KeyError | OverflowError

text \<open>Decimal digits: \<open>digit_char\<close> prints one, \<open>digit_of\<close> reads one.\<close>

definition digit_char :: "nat \<Rightarrow> char" where
  "digit_char d = ''0123456789'' ! d"

definition digit_of :: "char \<Rightarrow> nat option" where
  "digit_of c = map_of [(CHR ''0'', 0), (CHR ''1'', 1), (CHR ''2'', 2), (CHR ''3'', 3),
     (CHR ''4'', 4), (CHR ''5'', 5), (CHR ''6'', 6), (CHR ''7'', 7), (CHR ''8'', 8),
     (CHR ''9'', 9)] c"

text \<open>\<^verbatim>\<open>"%d" % n\<close> for a natural number.\<close>

fun nat_str :: "nat \<Rightarrow> string" where
  "nat_str n = (if n < 10 then [digit_char n] else nat_str (n div 10) @ [digit_char (n mod 10)])"

declare nat_str.simps [simp del]

text \<open>\<^verbatim>\<open>"%0wd" % k\<close>: the last \<open>w\<close> decimal digits of \<open>k\<close>, zero padded.\<close>

fun zfill :: "nat \<Rightarrow> nat \<Rightarrow> string" where
  "zfill 0 k = []"
| "zfill (Suc w) k = digit_char (k div 10 ^ w mod 10) # zfill w k"

text \<open>Python's \<^verbatim>\<open>round\<close>: to the nearest integer, a tie to the even one.\<close>

definition round_half_even :: "real \<Rightarrow> int" where
  "round_half_even x =
     (let f = \<lfloor>x\<rfloor>; d = x - of_int f
      in if d < 1 / 2 then f else if 1 / 2 < d then f + 1 else if even f then f else f + 1)"

subsection \<open>Floats\<close>

text \<open>
  A float is a finite double, an infinity or \<^verbatim>\<open>nan\<close>. The one thing left out is the
  sign of zero: \<open>Fin 0\<close> stands for \<open>0.0\<close> and for \<open>-0.0\<close>, which compare equal and
  differ in the program only where a zero is printed as it is.
\<close>

datatype pyfloat = Fin real | PInf | NInf | NaN

text \<open>\<^verbatim>\<open>a <= b\<close> and \<^verbatim>\<open>a < b\<close>: every comparison with \<^verbatim>\<open>nan\<close> is false.\<close>

fun fle :: "pyfloat \<Rightarrow> pyfloat \<Rightarrow> bool" where
  "fle (Fin x) (Fin y) = (x \<le> y)"
| "fle NaN b = False"
| "fle a NaN = False"
| "fle NInf b = True"
| "fle a PInf = True"
| "fle a b = False"

fun flt :: "pyfloat \<Rightarrow> pyfloat \<Rightarrow> bool" where
  "flt (Fin x) (Fin y) = (x < y)"
| "flt NaN b = False"
| "flt a NaN = False"
| "flt PInf b = False"
| "flt a NInf = False"
| "flt a b = True"

text \<open>
  Rounding a real number to the nearest double, a tie to the even significand. The
  exponent of \<open>x\<close> is the \<open>k\<close> with \<open>2 ^ k \<le> \<bar>x\<bar> < 2 ^ (k + 1)\<close>; the search starts at
  zero and takes at most 1100 steps, which covers every exponent a double can have. A
  double has 53 significant bits, and below \<open>2 ^ - 1022\<close> the spacing of the subnormal
  numbers, \<open>2 ^ - 1074\<close>. The result of \<open>double_round\<close> reaches \<open>2 ^ 1024\<close> exactly when
  the rounded value is too large for a double.
\<close>

fun exponent_search :: "nat \<Rightarrow> int \<Rightarrow> real \<Rightarrow> int" where
  "exponent_search 0 k x = k"
| "exponent_search (Suc n) k x =
     (if x < 2 powi k then exponent_search n (k - 1) x
      else if 2 powi (k + 1) \<le> x then exponent_search n (k + 1) x
      else k)"

definition float_exponent :: "real \<Rightarrow> int" where
  "float_exponent x = exponent_search 1100 0 \<bar>x\<bar>"

definition double_round :: "real \<Rightarrow> real" where
  "double_round x =
     (let e = max (float_exponent x) (- 1022); ulp = 2 powi (e - 52)
      in of_int (round_half_even (x / ulp)) * ulp)"

text \<open>The float that an operation returns for the rounded value: overflow gives an infinity.\<close>

definition to_float :: "real \<Rightarrow> pyfloat" where
  "to_float r = (if 2 ^ 1024 \<le> r then PInf else if r \<le> - (2 ^ 1024) then NInf else Fin r)"

text \<open>
  \<^verbatim>\<open>a / d\<close> for a finite \<open>d\<close> above zero, which is what every divisor in the program
  is.
\<close>

definition fdiv :: "pyfloat \<Rightarrow> real \<Rightarrow> pyfloat" where
  "fdiv a d = (case a of Fin x \<Rightarrow> to_float (double_round (x / d)) | PInf \<Rightarrow> PInf
               | NInf \<Rightarrow> NInf | NaN \<Rightarrow> NaN)"

text \<open>
  The format specification \<^verbatim>\<open>:.2f\<close>: the exact value of the double to two decimals,
  correctly rounded (a tie to the even neighbour), with the sign of a negative value.
\<close>

definition fmt2f :: "pyfloat \<Rightarrow> string" where
  "fmt2f a =
     (case a of
        Fin x \<Rightarrow>
          (let n = nat (round_half_even (\<bar>x\<bar> * 100))
           in (if x < 0 then ''-'' else []) @ nat_str (n div 100) @ ''.'' @ zfill 2 (n mod 100))
      | PInf \<Rightarrow> ''inf''
      | NInf \<Rightarrow> ''-inf''
      | NaN \<Rightarrow> ''nan'')"

text \<open>
  \<^verbatim>\<open>str\<close> of a float, which is what an f-string does with a bare \<^verbatim>\<open>{offset}\<close>.
  Python prints the shortest digits that read back as the same float, in exponent notation
  below \<open>1e-4\<close>. The program formats only the offsets of \<^verbatim>\<open>FLARE_OFFSETS\<close> this way,
  so the model lists Python's output on those five floats; on any other value it has
  nothing to say and gives the empty string.
\<close>

definition str_float :: "real \<Rightarrow> string" where
  "str_float x =
     (if x = double_round (1 / 10 ^ 8) then ''1e-08''
      else if x = double_round (1 / 10 ^ 7) then ''1e-07''
      else if x = double_round (1 / 10 ^ 6) then ''1e-06''
      else if x = double_round (1 / 10 ^ 5) then ''1e-05''
      else if x = double_round (1 / 10 ^ 4) then ''0.0001''
      else [])"

subsection \<open>The flare scale and the classifier\<close>

text \<open>A literal such as \<^verbatim>\<open>1e-8\<close> is the double nearest to the number it writes.\<close>

definition FLARE_OFFSETS :: "(string \<times> real) list" where
  "FLARE_OFFSETS =
     [(''A'', double_round (1 / 10 ^ 8)), (''B'', double_round (1 / 10 ^ 7)),
      (''C'', double_round (1 / 10 ^ 6)), (''M'', double_round (1 / 10 ^ 5)),
      (''X'', double_round (1 / 10 ^ 4))]"

text \<open>\<^verbatim>\<open>STRONG_FLARE = FLARE_OFFSETS[4][1]\<close>\<close>

definition STRONG_FLARE :: real where
  "STRONG_FLARE = snd (FLARE_OFFSETS ! 4)"

definition is_x_flare :: "pyfloat \<Rightarrow> bool" where
  "is_x_flare flux = fle (Fin STRONG_FLARE) flux"

text \<open>
  \<^verbatim>\<open>flare_class\<close>. The \<^verbatim>\<open>for\<close> loop walks \<^verbatim>\<open>FLARE_OFFSETS\<close> in list order, from
  \<open>A\<close> to \<open>X\<close>, and returns at the first pair whose offset the flux reaches:
  \<open>find\<close>. The f-string of that return prints \<^verbatim>\<open>offset\<close>, not \<^verbatim>\<open>flare\<close>.
\<close>

definition flare_class :: "pyfloat \<Rightarrow> string" where
  "flare_class flux =
     (if fle flux (Fin 0) then ''A0.00''
      else case find (\<lambda>(flare, offset). fle (Fin offset) flux) FLARE_OFFSETS of
             Some (flare, offset) \<Rightarrow> str_float offset @ fmt2f (fdiv flux offset)
           | None \<Rightarrow> ''A'' @ fmt2f (fdiv flux (double_round (1 / 10 ^ 8))))"

subsection \<open>Timestamps\<close>

text \<open>
  A \<^verbatim>\<open>datetime\<close> by its fields, as Python stores it. Every datetime the program keeps
  has gone through \<^verbatim>\<open>timeConvert\<close> and carries \<^verbatim>\<open>tzinfo=timezone.utc\<close>, so the
  record holds the UTC fields and no time zone.
\<close>

record datetime =
  year :: nat
  month :: nat
  day :: nat
  hour :: nat
  minute :: nat
  second :: nat
  microsecond :: nat

text \<open>
  Two datetimes of the same time zone compare by their fields, the year first: the
  lexicographic order on the tuple.
\<close>

definition dt_key :: "datetime \<Rightarrow> nat \<times> nat \<times> nat \<times> nat \<times> nat \<times> nat \<times> nat" where
  "dt_key d = (year d, month d, day d, hour d, minute d, second d, microsecond d)"

text \<open>
  The proleptic Gregorian calendar of the \<^verbatim>\<open>datetime\<close> module. The two tables are
  indexed by the month, from 1; Python fills their index 0 with \<open>-1\<close>, which is never
  read, and the tables here with \<open>0\<close>.
\<close>

definition is_leap :: "nat \<Rightarrow> bool" where
  "is_leap y = (y mod 4 = 0 \<and> (y mod 100 \<noteq> 0 \<or> y mod 400 = 0))"

definition DAYS_IN_MONTH :: "nat list" where
  "DAYS_IN_MONTH = [0, 31, 28, 31, 30, 31, 30, 31, 31, 30, 31, 30, 31]"

definition DAYS_BEFORE_MONTH :: "nat list" where
  "DAYS_BEFORE_MONTH = [0, 0, 31, 59, 90, 120, 151, 181, 212, 243, 273, 304, 334]"

definition days_in_month :: "nat \<Rightarrow> nat \<Rightarrow> nat" where
  "days_in_month y m = (if m = 2 \<and> is_leap y then 29 else DAYS_IN_MONTH ! m)"

definition days_before_year :: "nat \<Rightarrow> nat" where
  "days_before_year y = (y - 1) * 365 + (y - 1) div 4 - (y - 1) div 100 + (y - 1) div 400"

definition days_before_month :: "nat \<Rightarrow> nat \<Rightarrow> nat" where
  "days_before_month y m = DAYS_BEFORE_MONTH ! m + (if 2 < m \<and> is_leap y then 1 else 0)"

definition ymd2ord :: "nat \<Rightarrow> nat \<Rightarrow> nat \<Rightarrow> nat" where
  "ymd2ord y m d = days_before_year y + days_before_month y m + d"

text \<open>The inverse, \<^verbatim>\<open>_ord2ymd\<close>, for an ordinal of at least one.\<close>

definition ord2ymd :: "nat \<Rightarrow> nat \<times> nat \<times> nat" where
  "ord2ymd ordinal =
     (let n = ordinal - 1;
          n400 = n div 146097; n = n mod 146097;
          n100 = n div 36524; n = n mod 36524;
          n4 = n div 1461; n = n mod 1461;
          n1 = n div 365; n = n mod 365;
          y = n400 * 400 + 1 + n100 * 100 + n4 * 4 + n1
      in if n1 = 4 \<or> n100 = 4 then (y - 1, 12, 31)
         else
           let leapyear = (n1 = 3 \<and> (n4 \<noteq> 24 \<or> n100 = 3));
               m = (n + 50) div 32;
               preceding = DAYS_BEFORE_MONTH ! m + (if 2 < m \<and> leapyear then 1 else 0)
           in if n < preceding
              then (y, m - 1,
                    n + (DAYS_IN_MONTH ! (m - 1) + (if m - 1 = 2 \<and> leapyear then 1 else 0))
                      - preceding + 1)
              else (y, m, n - preceding + 1))"

text \<open>
  What the constructor checks: the year within \<^verbatim>\<open>MINYEAR..MAXYEAR\<close>, a day that the
  month has, and a time of day.
\<close>

definition valid_datetime :: "datetime \<Rightarrow> bool" where
  "valid_datetime d =
     (1 \<le> year d \<and> year d \<le> 9999 \<and> 1 \<le> month d \<and> month d \<le> 12 \<and>
      1 \<le> day d \<and> day d \<le> days_in_month (year d) (month d) \<and>
      hour d < 24 \<and> minute d < 60 \<and> second d < 60 \<and> microsecond d < 1000000)"

text \<open>
  A \<^verbatim>\<open>timedelta\<close> is its length in microseconds. \<^verbatim>\<open>timedelta(hours=h)\<close> splits
  \<open>h\<close> into its whole and its fractional part, takes the whole hours exactly, multiplies
  the fraction by 3600000000 as floats, and rounds the sum to a whole microsecond, a tie
  to the even one. It raises \<^verbatim>\<open>ValueError\<close> on \<^verbatim>\<open>nan\<close>, and \<^verbatim>\<open>OverflowError\<close> on
  an infinity and on more than 999999999 days.
\<close>

definition timedelta_hours :: "pyfloat \<Rightarrow> pyerror + int" where
  "timedelta_hours h =
     (case h of
        NaN \<Rightarrow> Inl ValueError
      | PInf \<Rightarrow> Inl OverflowError
      | NInf \<Rightarrow> Inl OverflowError
      | Fin x \<Rightarrow>
          (let whole = (if 0 \<le> x then \<lfloor>x\<rfloor> else \<lceil>x\<rceil>);
               frac = x - of_int whole;
               us = round_half_even
                      (of_int (whole * 3600000000) + double_round (3600000000 * frac))
           in if 999999999 < \<bar>us div 86400000000\<bar> then Inl OverflowError else Inr us))"

text \<open>
  \<^verbatim>\<open>datetime + timedelta\<close>: through the ordinal of the day, and \<^verbatim>\<open>OverflowError\<close>
  when the result leaves the years 1 to 9999.
\<close>

definition add_timedelta :: "datetime \<Rightarrow> int \<Rightarrow> pyerror + datetime" where
  "add_timedelta d us =
     (let total =
            ((int (ymd2ord (year d) (month d) (day d)) * 86400 + int (hour d) * 3600
               + int (minute d) * 60 + int (second d)) * 1000000)
            + int (microsecond d) + us;
          days = total div 86400000000;
          rest = total mod 86400000000;
          secs = rest div 1000000
      in if 0 < days \<and> days \<le> 3652059
         then (case ord2ymd (nat days) of (y, m, dd) \<Rightarrow>
                 Inr \<lparr>year = y, month = m, day = dd, hour = nat (secs div 3600),
                      minute = nat (secs mod 3600 div 60), second = nat (secs mod 60),
                      microsecond = nat (rest mod 1000000)\<rparr>)
         else Inl OverflowError)"

text \<open>
  \<^verbatim>\<open>isoformat()\<close> of a datetime in UTC: the microseconds only when they are not zero,
  and the offset \<open>+00:00\<close>.
\<close>

definition isoformat :: "datetime \<Rightarrow> string" where
  "isoformat d =
     zfill 4 (year d) @ ''-'' @ zfill 2 (month d) @ ''-'' @ zfill 2 (day d) @ ''T''
     @ zfill 2 (hour d) @ '':'' @ zfill 2 (minute d) @ '':'' @ zfill 2 (second d)
     @ (if microsecond d = 0 then [] else ''.'' @ zfill 6 (microsecond d)) @ ''+00:00''"

text \<open>
  \<^verbatim>\<open>datetime.fromisoformat\<close> on the format that \<^verbatim>\<open>isoformat\<close> writes,
  \<^verbatim>\<open>YYYY-MM-DD[*HH[:MM[:SS[.fff[fff]]]][+HH:MM[:SS[.ffffff]]]]\<close>, where \<^verbatim>\<open>*\<close> is any
  one character. Every version of Python since 3.7 reads these strings, and reads them
  the same way. Python reads some strings outside this format as well (from 3.11 on, most
  of ISO 8601), which this parser refuses. It is the instance of the parameter
  \<open>fromiso\<close> below on which examples are evaluated; the properties of the mapper hold
  for every \<open>fromiso\<close>.
\<close>

fun parse_digits :: "nat \<Rightarrow> nat \<Rightarrow> string \<Rightarrow> (nat \<times> string) option" where
  "parse_digits 0 acc s = Some (acc, s)"
| "parse_digits (Suc n) acc [] = None"
| "parse_digits (Suc n) acc (c # s) =
     (case digit_of c of None \<Rightarrow> None | Some v \<Rightarrow> parse_digits n (10 * acc + v) s)"

definition expect :: "char \<Rightarrow> string \<Rightarrow> string option" where
  "expect c s = (case s of [] \<Rightarrow> None | x # r \<Rightarrow> if x = c then Some r else None)"

definition parse_date :: "string \<Rightarrow> ((nat \<times> nat \<times> nat) \<times> string) option" where
  "parse_date s =
     do { (y, s1) \<leftarrow> parse_digits 4 0 s;
          s2 \<leftarrow> expect CHR ''-'' s1;
          (m, s3) \<leftarrow> parse_digits 2 0 s2;
          s4 \<leftarrow> expect CHR ''-'' s3;
          (d, s5) \<leftarrow> parse_digits 2 0 s4;
          Some ((y, m, d), s5) }"

definition parse_fraction :: "string \<Rightarrow> (nat \<times> string) option" where
  "parse_fraction s =
     (case parse_digits 6 0 s of
        Some r \<Rightarrow> Some r
      | None \<Rightarrow> (case parse_digits 3 0 s of Some (f, r) \<Rightarrow> Some (f * 1000, r) | None \<Rightarrow> None))"

definition parse_hms :: "string \<Rightarrow> ((nat \<times> nat \<times> nat \<times> nat) \<times> string) option" where
  "parse_hms s =
     do { (h, s1) \<leftarrow> parse_digits 2 0 s;
          case expect CHR '':'' s1 of
            None \<Rightarrow> Some ((h, 0, 0, 0), s1)
          | Some s2 \<Rightarrow>
              do { (m, s3) \<leftarrow> parse_digits 2 0 s2;
                   case expect CHR '':'' s3 of
                     None \<Rightarrow> Some ((h, m, 0, 0), s3)
                   | Some s4 \<Rightarrow>
                       do { (sec, s5) \<leftarrow> parse_digits 2 0 s4;
                            case expect CHR ''.'' s5 of
                              None \<Rightarrow> Some ((h, m, sec, 0), s5)
                            | Some s6 \<Rightarrow>
                                do { (us, s7) \<leftarrow> parse_fraction s6;
                                     Some ((h, m, sec, us), s7) } } } }"

text \<open>
  The offset, as whole seconds and microseconds. An offset of zero whole seconds is
  \<^verbatim>\<open>timezone.utc\<close>, whatever its microseconds; \<open>None\<close> inside \<open>Some\<close> is a string
  without an offset.
\<close>

definition parse_offset :: "string \<Rightarrow> (nat \<times> nat) option" where
  "parse_offset s =
     do { (h, s1) \<leftarrow> parse_digits 2 0 s;
          s2 \<leftarrow> expect CHR '':'' s1;
          (m, s3) \<leftarrow> parse_digits 2 0 s2;
          if s3 = [] then Some (h * 3600 + m * 60, 0)
          else
            do { s4 \<leftarrow> expect CHR '':'' s3;
                 (sec, s5) \<leftarrow> parse_digits 2 0 s4;
                 if s5 = [] then Some (h * 3600 + m * 60 + sec, 0)
                 else
                   do { s6 \<leftarrow> expect CHR ''.'' s5;
                        (us, s7) \<leftarrow> parse_digits 6 0 s6;
                        if s7 = [] then Some (h * 3600 + m * 60 + sec, us)
                        else None } } }"

definition offset_us :: "bool \<Rightarrow> nat \<times> nat \<Rightarrow> int" where
  "offset_us negative off =
     (case off of (secs, us) \<Rightarrow>
        if secs = 0 then 0
        else (if negative then - 1 else 1) * (int secs * 1000000 + int us))"

definition parse_tz :: "string \<Rightarrow> int option option" where
  "parse_tz s =
     (case s of
        [] \<Rightarrow> Some None
      | c # r \<Rightarrow>
          if c = CHR ''+'' then map_option (\<lambda>off. Some (offset_us False off)) (parse_offset r)
          else if c = CHR ''-'' then map_option (\<lambda>off. Some (offset_us True off)) (parse_offset r)
          else None)"

definition parse_isoformat :: "string \<Rightarrow> (datetime \<times> int option) option" where
  "parse_isoformat s =
     do { ((y, m, d), s1) \<leftarrow> parse_date s;
          case s1 of
            [] \<Rightarrow>
              Some (\<lparr>year = y, month = m, day = d, hour = 0, minute = 0, second = 0,
                      microsecond = 0\<rparr>, None)
          | sep # s2 \<Rightarrow>
              do { ((h, mi, sec, us), s3) \<leftarrow> parse_hms s2;
                   tz \<leftarrow> parse_tz s3;
                   Some (\<lparr>year = y, month = m, day = d, hour = h, minute = mi, second = sec,
                           microsecond = us\<rparr>, tz) } }"

text \<open>
  The parsed fields go through the constructors, which raise \<^verbatim>\<open>ValueError\<close> on a
  field out of range and on an offset of a day or more.
\<close>

definition fromisoformat :: "string \<Rightarrow> pyerror + (datetime \<times> int option)" where
  "fromisoformat s =
     (case parse_isoformat s of
        None \<Rightarrow> Inl ValueError
      | Some (d, tz) \<Rightarrow>
          if valid_datetime d \<and> (case tz of None \<Rightarrow> True | Some off \<Rightarrow> \<bar>off\<bar> < 86400000000)
          then Inr (d, tz) else Inl ValueError)"

text \<open>
  \<^verbatim>\<open>timeConvert\<close>. The parameter \<open>fromiso\<close> stands for \<^verbatim>\<open>datetime.fromisoformat\<close>,
  whose set of accepted strings depends on the version of Python: it gives the fields
  and, when the string has one, the offset in microseconds. A string without an offset
  gets \<^verbatim>\<open>tzinfo=timezone.utc\<close>, and \<^verbatim>\<open>astimezone(timezone.utc)\<close> returns a
  datetime that is in UTC already as it is; any other offset is subtracted.
\<close>

definition timeConvert ::
  "(string \<Rightarrow> pyerror + (datetime \<times> int option)) \<Rightarrow> string \<Rightarrow> pyerror + datetime" where
  "timeConvert fromiso time_stamp =
     (let time_stamp = (if time_stamp \<noteq> [] \<and> last time_stamp = CHR ''Z''
                        then butlast time_stamp @ ''+00:00'' else time_stamp)
      in case fromiso time_stamp of
           Inl e \<Rightarrow> Inl e
         | Inr (date_time, tz) \<Rightarrow>
             (case tz of
                None \<Rightarrow> Inr date_time
              | Some off \<Rightarrow> if off = 0 then Inr date_time else add_timedelta date_time (- off)))"

subsection \<open>Samples and the alert\<close>

record xrayEntry =
  time_utc :: datetime
  flux :: pyfloat
  observed_flux :: pyfloat

text \<open>
  The builtin \<^verbatim>\<open>max\<close> with a key, on a list with a first element: an item replaces
  the best so far when its key is greater, so the first of the largest is kept, and an
  item never replaces a \<^verbatim>\<open>nan\<close>.
\<close>

primrec max_loop :: "('a \<Rightarrow> pyfloat) \<Rightarrow> 'a \<Rightarrow> 'a list \<Rightarrow> 'a" where
  "max_loop key best [] = best"
| "max_loop key best (x # xs) = max_loop key (if flt (key best) (key x) then x else best) xs"

text \<open>
  \<^verbatim>\<open>x_flare_Alert\<close> returns nothing; what it does is print. The model returns the lines
  it prints.
\<close>

definition x_flare_Alert :: "xrayEntry list \<Rightarrow> string list" where
  "x_flare_Alert entries =
     (case entries of
        [] \<Rightarrow> []
      | e # es \<Rightarrow>
          let strongest = max_loop flux e es
          in if \<not> is_x_flare (flux strongest) then []
             else if is_x_flare (flux strongest) then [''STRONG ASS FLARE DETECTED'']
             else [])"

subsection \<open>Raw records\<close>

text \<open>
  A raw record is a \<^verbatim>\<open>dict[str, Any]\<close>. The program does two things with a value of
  it: \<^verbatim>\<open>str(v)\<close> and \<^verbatim>\<open>float(v)\<close>. So a value is modelled by what these two give:
  the string \<open>"abc"\<close> is \<open>\<lparr>str_of = ''abc'', float_of = Inl ValueError\<rparr>\<close>, the number
  \<open>1e-6\<close> is \<open>\<lparr>str_of = ''1e-06'', float_of = Inr (Fin (double_round (1 / 10 ^ 6)))\<rparr>\<close>,
  and \<^verbatim>\<open>None\<close> is \<open>\<lparr>str_of = ''None'', float_of = Inl TypeError\<rparr>\<close>.
\<close>

record pyobj =
  str_of :: string
  float_of :: "pyerror + pyfloat"

type_synonym rawrec = "string \<rightharpoonup> pyobj"

type_synonym isoparser = "string \<Rightarrow> pyerror + (datetime \<times> int option)"

text \<open>The body of the \<^verbatim>\<open>try\<close> in \<^verbatim>\<open>split_entries\<close>, for one record.\<close>

definition read_entry :: "isoparser \<Rightarrow> rawrec \<Rightarrow> pyerror + xrayEntry" where
  "read_entry fromiso i =
     (case i ''time_tag'' of
        None \<Rightarrow> Inl KeyError
      | Some tv \<Rightarrow>
          (case timeConvert fromiso (str_of tv) of
             Inl e \<Rightarrow> Inl e
           | Inr time \<Rightarrow>
               (case i ''flux'' of
                  None \<Rightarrow> Inl KeyError
                | Some fv \<Rightarrow>
                    (case float_of fv of
                       Inl e \<Rightarrow> Inl e
                     | Inr fl \<Rightarrow>
                         (case (case i ''observed_flux'' of
                                  None \<Rightarrow> Inr fl
                                | Some ov \<Rightarrow> float_of ov) of
                            Inl e \<Rightarrow> Inl e
                          | Inr obs \<Rightarrow>
                              Inr \<lparr>time_utc = time, flux = fl, observed_flux = obs\<rparr>)))))"

text \<open>The loop: a record whose \<^verbatim>\<open>try\<close> raises is passed over.\<close>

primrec read_entries :: "isoparser \<Rightarrow> rawrec list \<Rightarrow> xrayEntry list" where
  "read_entries fromiso [] = []"
| "read_entries fromiso (i # data) =
     (case read_entry fromiso i of
        Inl e \<Rightarrow> read_entries fromiso data
      | Inr entry \<Rightarrow> entry # read_entries fromiso data)"

text \<open>
  \<^verbatim>\<open>split_entries\<close>. The body reads the keys \<open>"time_tag"\<close> and \<open>"flux"\<close> and never
  its parameters \<^verbatim>\<open>time_key\<close> and \<^verbatim>\<open>flux_key\<close>. \<^verbatim>\<open>list.sort\<close> is stable, as
  \<open>sort_key\<close> is.
\<close>

definition split_entries ::
  "isoparser \<Rightarrow> rawrec list \<Rightarrow> string \<Rightarrow> string \<Rightarrow> xrayEntry list" where
  "split_entries fromiso data time_key flux_key =
     sort_key (\<lambda>i. dt_key (time_utc i)) (read_entries fromiso data)"

subsection \<open>The window and the summary\<close>

definition getLastNHoras :: "xrayEntry list \<Rightarrow> pyfloat \<Rightarrow> pyerror + xrayEntry list" where
  "getLastNHoras entries hours =
     (if entries = [] then Inr []
      else
        let end_time = time_utc (last entries)
        in case timedelta_hours hours of
             Inl e \<Rightarrow> Inl e
           | Inr delta \<Rightarrow>
               (case add_timedelta end_time (- delta) of
                  Inl e \<Rightarrow> Inl e
                | Inr start \<Rightarrow>
                    Inr (filter (\<lambda>i. dt_key start \<le> dt_key (time_utc i)
                                      \<and> dt_key (time_utc i) \<le> dt_key end_time) entries)))"

text \<open>
  The dictionary that \<^verbatim>\<open>summary\<close> returns, a field for each key (\<open>nodes\<close> for
  \<open>"Amount of nodes(measurements)"\<close>). The value under \<open>"max_flux"\<close> is a string: the
  code stores \<^verbatim>\<open>flare_class(max_flux)\<close> there.
\<close>

record summary_dict =
  start_time_utc :: string
  end_time_utc :: string
  nodes :: nat
  current_flux :: pyfloat
  current_class :: string
  max_flux :: string
  max_class :: string

definition summary :: "xrayEntry list \<Rightarrow> pyerror + summary_dict" where
  "summary entries =
     (case entries of
        [] \<Rightarrow> Inl ValueError
      | e # es \<Rightarrow>
          let curr = flux (last entries);
              maxf = max_loop (\<lambda>v. v) (flux e) (map flux es)
          in Inr \<lparr>start_time_utc = isoformat (time_utc (hd entries)),
                  end_time_utc = isoformat (time_utc (last entries)),
                  nodes = length entries,
                  current_flux = curr,
                  current_class = flare_class curr,
                  max_flux = flare_class maxf,
                  max_class = flare_class maxf\<rparr>)"

subsection \<open>Sample inputs\<close>

text \<open>
  Concrete inputs on which the properties below are evaluated: the instant
  2026-01-20T00:00:00 UTC, the instants three and two hours before it, samples at these
  instants, and raw records as the feed gives them. A number written \<open>double_round q\<close>
  is the float that Python reads from the decimal \<open>q\<close>.
\<close>

definition sample_time :: datetime where
  "sample_time = \<lparr>year = 2026, month = 1, day = 20, hour = 0, minute = 0, second = 0,
                    microsecond = 0\<rparr>"

definition sample_time_21h :: datetime where
  "sample_time_21h = \<lparr>year = 2026, month = 1, day = 19, hour = 21, minute = 0, second = 0,
                        microsecond = 0\<rparr>"

definition sample_time_22h :: datetime where
  "sample_time_22h = \<lparr>year = 2026, month = 1, day = 19, hour = 22, minute = 0, second = 0,
                        microsecond = 0\<rparr>"

text \<open>Samples of flux \<open>5.5e-6\<close>, \<open>1e-6\<close>, \<open>2e-4\<close> and \<^verbatim>\<open>nan\<close>.\<close>

definition sample_entry :: xrayEntry where
  "sample_entry = \<lparr>time_utc = sample_time, flux = Fin (double_round (55 / 10 ^ 7)),
                     observed_flux = Fin (double_round (55 / 10 ^ 7))\<rparr>"

definition sample_entry_21h :: xrayEntry where
  "sample_entry_21h = \<lparr>time_utc = sample_time_21h, flux = Fin (double_round (1 / 10 ^ 6)),
                         observed_flux = Fin (double_round (1 / 10 ^ 6))\<rparr>"

definition sample_entry_22h :: xrayEntry where
  "sample_entry_22h = \<lparr>time_utc = sample_time_22h, flux = Fin (double_round (2 / 10 ^ 4)),
                         observed_flux = Fin (double_round (2 / 10 ^ 4))\<rparr>"

definition sample_entry_nan :: xrayEntry where
  "sample_entry_nan = \<lparr>time_utc = sample_time_21h, flux = NaN, observed_flux = NaN\<rparr>"

text \<open>
  The strings \<open>"2026-01-20T00:00:00Z"\<close> and \<open>"2026-01-19T22:00:00Z"\<close>, the floats
  \<open>1e-6\<close> and \<open>2e-6\<close>, and the string \<open>"abc"\<close>.
\<close>

definition sample_time_tag :: pyobj where
  "sample_time_tag = \<lparr>str_of = ''2026-01-20T00:00:00Z'', float_of = Inl ValueError\<rparr>"

definition sample_time_tag_22h :: pyobj where
  "sample_time_tag_22h = \<lparr>str_of = ''2026-01-19T22:00:00Z'', float_of = Inl ValueError\<rparr>"

definition sample_number :: pyobj where
  "sample_number = \<lparr>str_of = ''1e-06'', float_of = Inr (Fin (double_round (1 / 10 ^ 6)))\<rparr>"

definition sample_number_2 :: pyobj where
  "sample_number_2 = \<lparr>str_of = ''2e-06'', float_of = Inr (Fin (double_round (2 / 10 ^ 6)))\<rparr>"

definition sample_text :: pyobj where
  "sample_text = \<lparr>str_of = ''abc'', float_of = Inl ValueError\<rparr>"

text \<open>
  A record without \<open>"observed_flux"\<close>, one with a readable \<open>"observed_flux"\<close>, two
  hours earlier, and one with an unreadable \<open>"observed_flux"\<close>.
\<close>

definition sample_record :: rawrec where
  "sample_record = [''time_tag'' \<mapsto> sample_time_tag, ''flux'' \<mapsto> sample_number]"

definition sample_record_22h :: rawrec where
  "sample_record_22h =
     [''time_tag'' \<mapsto> sample_time_tag_22h, ''flux'' \<mapsto> sample_number,
      ''observed_flux'' \<mapsto> sample_number_2]"

definition sample_record_unreadable :: rawrec where
  "sample_record_unreadable =
     [''time_tag'' \<mapsto> sample_time_tag, ''flux'' \<mapsto> sample_number,
      ''observed_flux'' \<mapsto> sample_text]"

section \<open>Properties\<close>

subsection \<open>Rounding to a double\<close>

text \<open>
  The exponent search finds the exponent of every number whose exponent is within its
  reach, so \<open>double_round\<close> can be computed from the exponent directly.
\<close>

lemma pow2_less_D: "(2::real) powi j < 2 powi k \<Longrightarrow> j < k"
  using power_int_increasing [of k j "2::real"] by (cases "k \<le> j") auto

lemma exponent_search_eq:
  assumes "2 powi j \<le> x" and "x < 2 powi (j + 1)" and "\<bar>j - k\<bar> \<le> int n"
  shows "exponent_search n k x = j"
  using assms
proof (induction n arbitrary: k)
  case 0
  then show ?case by simp
next
  case (Suc n)
  show ?case
  proof (cases "x < 2 powi k")
    case True
    with Suc.prems(1) have "(2::real) powi j < 2 powi k" by linarith
    then have "j < k" by (rule pow2_less_D)
    with Suc.prems(3) have "\<bar>j - (k - 1)\<bar> \<le> int n" by simp
    with Suc.IH [OF Suc.prems(1,2)] True show ?thesis by simp
  next
    case False
    note lo = this
    show ?thesis
    proof (cases "2 powi (k + 1) \<le> x")
      case True
      with Suc.prems(2) have "(2::real) powi (k + 1) < 2 powi (j + 1)" by linarith
      then have "k + 1 < j + 1" by (rule pow2_less_D)
      with Suc.prems(3) have "\<bar>j - (k + 1)\<bar> \<le> int n" by simp
      with Suc.IH [OF Suc.prems(1,2)] True lo show ?thesis by simp
    next
      case False
      from lo Suc.prems(2) have "(2::real) powi k < 2 powi (j + 1)" by linarith
      then have a: "k < j + 1" by (rule pow2_less_D)
      from False Suc.prems(1) have "(2::real) powi j < 2 powi (k + 1)" by linarith
      then have b: "j < k + 1" by (rule pow2_less_D)
      from a b lo False show ?thesis by simp
    qed
  qed
qed

lemma float_exponent_eq:
  assumes "2 powi k \<le> \<bar>x\<bar>" and "\<bar>x\<bar> < 2 powi (k + 1)" and "\<bar>k\<bar> \<le> 1100"
  shows "float_exponent x = k"
  unfolding float_exponent_def using assms by (intro exponent_search_eq) auto

lemma double_round_eq:
  assumes "2 powi k \<le> \<bar>x\<bar>" and "\<bar>x\<bar> < 2 powi (k + 1)" and "- 1022 \<le> k" and "k \<le> 1100"
  shows "double_round x = of_int (round_half_even (x / 2 powi (k - 52))) * 2 powi (k - 52)"
proof -
  from assms have "float_exponent x = k" by (intro float_exponent_eq) auto
  with assms(3) show ?thesis by (simp add: double_round_def Let_def max_def)
qed

lemma double_round_0: "double_round 0 = 0"
  by (simp add: double_round_def Let_def round_half_even_def)

text \<open>
  The doubles that Python reads from the decimal literals used here, and the float
  quotients of some of them by \<open>1e-8\<close>.
\<close>

lemma double_1e_8: "double_round (1 / 10 ^ 8) = 3022314549036573 / 2 ^ 78"
  by (subst double_round_eq [where k = "- 27"]) (simp_all add: round_half_even_def Let_def)

lemma double_1e_7: "double_round (1 / 10 ^ 7) = 944473296573929 / 2 ^ 73"
  by (subst double_round_eq [where k = "- 24"]) (simp_all add: round_half_even_def Let_def)

lemma double_1e_6: "double_round (1 / 10 ^ 6) = 4722366482869645 / 2 ^ 72"
  by (subst double_round_eq [where k = "- 20"]) (simp_all add: round_half_even_def Let_def)

lemma double_1e_5: "double_round (1 / 10 ^ 5) = 5902958103587057 / 2 ^ 69"
  by (subst double_round_eq [where k = "- 17"]) (simp_all add: round_half_even_def Let_def)

lemma double_1e_4: "double_round (1 / 10 ^ 4) = 7378697629483821 / 2 ^ 66"
  by (subst double_round_eq [where k = "- 14"]) (simp_all add: round_half_even_def Let_def)

lemma double_55e_7: "double_round (55 / 10 ^ 7) = 3246626956972881 / 2 ^ 69"
  by (subst double_round_eq [where k = "- 18"]) (simp_all add: round_half_even_def Let_def)

lemma double_2e_4: "double_round (2 / 10 ^ 4) = 7378697629483821 / 2 ^ 65"
  by (subst double_round_eq [where k = "- 13"]) (simp_all add: round_half_even_def Let_def)

lemma double_2e_6: "double_round (2 / 10 ^ 6) = 4722366482869645 / 2 ^ 71"
  by (subst double_round_eq [where k = "- 19"]) (simp_all add: round_half_even_def Let_def)

lemma double_999e_11: "double_round (999 / 10 ^ 11) = 6038584468975073 / 2 ^ 79"
  by (subst double_round_eq [where k = "- 27"]) (simp_all add: round_half_even_def Let_def)

lemma double_155e_11: "double_round (155 / 10 ^ 11) = 7495340081610701 / 2 ^ 82"
  by (subst double_round_eq [where k = "- 30"]) (simp_all add: round_half_even_def Let_def)

lemma double_hours: "double_round (19999999999 / 10 ^ 10) = 1125899906786329 / 2 ^ 49"
  by (subst double_round_eq [where k = "0"]) (simp_all add: round_half_even_def Let_def)

lemma fdiv_1e_4: "fdiv (Fin (double_round (1 / 10 ^ 4))) (double_round (1 / 10 ^ 8)) = Fin (10000)"
proof -
  have "double_round ((7378697629483821 / 2 ^ 66) / (3022314549036573 / 2 ^ 78)) = 10000"
    by (subst double_round_eq [where k = "13"]) (simp_all add: round_half_even_def Let_def)
  then show ?thesis
    unfolding fdiv_def double_1e_4 double_1e_8 by (simp add: to_float_def)
qed

lemma fdiv_55e_7: "fdiv (Fin (double_round (55 / 10 ^ 7))) (double_round (1 / 10 ^ 8)) = Fin (550)"
proof -
  have "double_round ((3246626956972881 / 2 ^ 69) / (3022314549036573 / 2 ^ 78)) = 550"
    by (subst double_round_eq [where k = "9"]) (simp_all add: round_half_even_def Let_def)
  then show ?thesis
    unfolding fdiv_def double_55e_7 double_1e_8 by (simp add: to_float_def)
qed

lemma fdiv_999e_11: "fdiv (Fin (double_round (999 / 10 ^ 11))) (double_round (1 / 10 ^ 8)) = Fin (8998192055486251 / 2 ^ 53)"
proof -
  have "double_round ((6038584468975073 / 2 ^ 79) / (3022314549036573 / 2 ^ 78)) = 8998192055486251 / 2 ^ 53"
    by (subst double_round_eq [where k = "- 1"]) (simp_all add: round_half_even_def Let_def)
  then show ?thesis
    unfolding fdiv_def double_999e_11 double_1e_8 by (simp add: to_float_def)
qed

lemma fdiv_155e_11: "fdiv (Fin (double_round (155 / 10 ^ 11))) (double_round (1 / 10 ^ 8)) = Fin (5584463537939415 / 2 ^ 55)"
proof -
  have "double_round ((7495340081610701 / 2 ^ 82) / (3022314549036573 / 2 ^ 78)) = 5584463537939415 / 2 ^ 55"
    by (subst double_round_eq [where k = "- 3"]) (simp_all add: round_half_even_def Let_def)
  then show ?thesis
    unfolding fdiv_def double_155e_11 double_1e_8 by (simp add: to_float_def)
qed

subsection \<open>The classifier\<close>

lemma zfill_2: "zfill 2 k = [digit_char (k div 10 mod 10), digit_char (k mod 10)]"
  by (simp add: numeral_2_eq_2)

lemmas fmt2f_eval = fmt2f_def round_half_even_def nat_str.simps digit_char_def Let_def zfill_2

lemma fmt2f_10000: "fmt2f (Fin 10000) = ''10000.00''"
  by (simp add: fmt2f_eval)

lemma fmt2f_550: "fmt2f (Fin 550) = ''550.00''"
  by (simp add: fmt2f_eval)

lemma fmt2f_999: "fmt2f (Fin (8998192055486251 / 2 ^ 53)) = ''1.00''"
  by (simp add: fmt2f_eval)

lemma fmt2f_155: "fmt2f (Fin (5584463537939415 / 2 ^ 55)) = ''0.15''"
  by (simp add: fmt2f_eval)

lemma double_simps:
  "double_round (1 / 100000000) = 3022314549036573 / 302231454903657293676544"
  "double_round (1 / 10000000) = 944473296573929 / 9444732965739290427392"
  "double_round (1 / 1000000) = 4722366482869645 / 4722366482869645213696"
  "double_round (1 / 100000) = 5902958103587057 / 590295810358705651712"
  "double_round (1 / 10000) = 7378697629483821 / 73786976294838206464"
  "double_round (11 / 2000000) = 3246626956972881 / 590295810358705651712"
  "double_round (1 / 5000) = 7378697629483821 / 36893488147419103232"
  "double_round (1 / 500000) = 4722366482869645 / 2361183241434822606848"
  "double_round (999 / 100000000000) = 6038584468975073 / 604462909807314587353088"
  "double_round (31 / 20000000000) = 7495340081610701 / 4835703278458516698824704"
  "double_round (19999999999 / 10000000000) = 1125899906786329 / 562949953421312"
  using double_1e_8 double_1e_7 double_1e_6 double_1e_5 double_1e_4 double_55e_7 double_2e_4 double_2e_6 double_999e_11 double_155e_11 double_hours
  by simp_all

lemma str_float_A: "str_float (double_round (1 / 10 ^ 8)) = ''1e-08''"
  by (simp add: str_float_def)

lemma find_FLARE_OFFSETS_ge:
  "fle (Fin (double_round (1 / 10 ^ 8))) a \<Longrightarrow>
   find (\<lambda>(flare, offset). fle (Fin offset) a) FLARE_OFFSETS
     = Some (''A'', double_round (1 / 10 ^ 8))"
  by (simp add: FLARE_OFFSETS_def)

lemma find_FLARE_OFFSETS_lt:
  assumes "flt a (Fin (double_round (1 / 10 ^ 8)))"
  shows "find (\<lambda>(flare, offset). fle (Fin offset) a) FLARE_OFFSETS = None"
proof (cases a)
  case (Fin x)
  with assms have "x < 3022314549036573 / 2 ^ 78" by (simp add: double_simps)
  then show ?thesis
    unfolding Fin by (simp add: FLARE_OFFSETS_def double_simps)
next
  case NInf
  then show ?thesis by (simp add: FLARE_OFFSETS_def)
qed (use assms in simp_all)

text \<open>
  What the loop does with every flux that reaches the \<open>A\<close> offset: the first pair of the
  table already matches, so the label is the text of \<open>1e-8\<close> followed by the flux in
  units of \<open>1e-8\<close>, whatever the class of the flux.
\<close>

lemma flare_class_ge:
  assumes "fle (Fin (double_round (1 / 10 ^ 8))) a"
  shows "flare_class a
           = str_float (double_round (1 / 10 ^ 8)) @ fmt2f (fdiv a (double_round (1 / 10 ^ 8)))"
proof -
  have "\<not> fle a (Fin 0)"
    using assms by (cases a) (simp_all add: double_simps)
  then show ?thesis
    unfolding flare_class_def find_FLARE_OFFSETS_ge [OF assms] by simp
qed

lemma fle_1e_8:
  "fle (Fin (double_round (1 / 10 ^ 8))) (Fin (double_round (1 / 10 ^ 4)))"
  "fle (Fin (double_round (1 / 10 ^ 8))) (Fin (double_round (55 / 10 ^ 7)))"
  by (simp_all add: double_simps)

lemma flare_class_sample: "flare_class (Fin (double_round (55 / 10 ^ 7))) = ''1e-08550.00''"
  unfolding flare_class_ge [OF fle_1e_8(2)] fdiv_55e_7 str_float_A fmt2f_550 by simp

text \<open>
  C1. The claim: a flux of at least \<open>1e-8\<close> gets the letter of the strongest class whose
  lower bound it reaches, followed by the flux divided by that bound, so that
  \<open>flare_class 1e-4\<close> is \<open>X1.00\<close> and \<open>flare_class 5.5e-6\<close> is \<open>C5.50\<close>. The code
  returns \<open>1e-0810000.00\<close> and \<open>1e-08550.00\<close> there: it scans from \<open>A\<close> upwards and
  prints the offset in place of the letter.
\<close>

theorem flare_class_prints_offset:
  "flare_class (Fin (double_round (1 / 10 ^ 4))) = ''1e-0810000.00'' \<and>
   flare_class (Fin (double_round (55 / 10 ^ 7))) = ''1e-08550.00''"
proof -
  have "flare_class (Fin (double_round (1 / 10 ^ 4))) = ''1e-0810000.00''"
    unfolding flare_class_ge [OF fle_1e_8(1)] fdiv_1e_4 str_float_A fmt2f_10000 by simp
  with flare_class_sample show ?thesis by simp
qed

text \<open>
  C7. A flux of at most zero is labelled \<open>A0.00\<close>; a flux above zero and below the float
  \<open>1e-8\<close> is labelled \<open>A\<close> followed by the float quotient of the flux and \<open>1e-8\<close>,
  printed to two decimals; and \<open>flare_class 9.99e-9\<close> is \<open>A1.00\<close>.
\<close>

theorem flare_class_below_A:
  "(fle a (Fin 0) \<longrightarrow> flare_class a = ''A0.00'') \<and>
   (flt (Fin 0) a \<and> flt a (Fin (double_round (1 / 10 ^ 8))) \<longrightarrow>
      flare_class a = ''A'' @ fmt2f (fdiv a (double_round (1 / 10 ^ 8)))) \<and>
   flare_class (Fin (double_round (999 / 10 ^ 11))) = ''A1.00''"
proof -
  have low: "flare_class b = ''A'' @ fmt2f (fdiv b (double_round (1 / 10 ^ 8)))"
    if "flt (Fin 0) b" "flt b (Fin (double_round (1 / 10 ^ 8)))" for b
  proof -
    from that(1) have "\<not> fle b (Fin 0)" by (cases b) simp_all
    then show ?thesis
      by (simp add: flare_class_def find_FLARE_OFFSETS_lt [OF that(2)])
  qed
  have r: "flt (Fin 0) (Fin (double_round (999 / 10 ^ 11)))"
    "flt (Fin (double_round (999 / 10 ^ 11))) (Fin (double_round (1 / 10 ^ 8)))"
    by (simp_all add: double_simps)
  have "flare_class (Fin (double_round (999 / 10 ^ 11))) = ''A1.00''"
    unfolding low [OF r] fdiv_999e_11 fmt2f_999 by simp
  moreover have "fle a (Fin 0) \<longrightarrow> flare_class a = ''A0.00''"
    by (simp add: flare_class_def)
  ultimately show ?thesis using low [of a] by blast
qed

theorem flare_class_below_A_witness:
  "fle NInf (Fin 0) \<and> flare_class NInf = ''A0.00'' \<and>
   fle (Fin (- 1)) (Fin 0) \<and> flare_class (Fin (- 1)) = ''A0.00'' \<and>
   flt (Fin 0) (Fin (double_round (155 / 10 ^ 11))) \<and>
   flt (Fin (double_round (155 / 10 ^ 11))) (Fin (double_round (1 / 10 ^ 8))) \<and>
   flare_class (Fin (double_round (155 / 10 ^ 11))) = ''A0.15''"
proof -
  have h: "flt (Fin 0) (Fin (double_round (155 / 10 ^ 11)))"
    "flt (Fin (double_round (155 / 10 ^ 11))) (Fin (double_round (1 / 10 ^ 8)))"
    by (simp_all add: double_simps)
  have "flare_class (Fin (double_round (155 / 10 ^ 11)))
          = ''A'' @ fmt2f (fdiv (Fin (double_round (155 / 10 ^ 11))) (double_round (1 / 10 ^ 8)))"
    using flare_class_below_A [of "Fin (double_round (155 / 10 ^ 11))"] h by blast
  then have "flare_class (Fin (double_round (155 / 10 ^ 11))) = ''A0.15''"
    unfolding fdiv_155e_11 fmt2f_155 by simp
  moreover have "flare_class NInf = ''A0.00''" "flare_class (Fin (- 1)) = ''A0.00''"
    using flare_class_below_A [of NInf] flare_class_below_A [of "Fin (- 1)"] by simp_all
  ultimately show ?thesis using h by simp
qed

subsection \<open>Evaluating the parser and the calendar\<close>

lemma zfill_4:
  "zfill 4 k = [digit_char (k div 1000 mod 10), digit_char (k div 100 mod 10),
                digit_char (k div 10 mod 10), digit_char (k mod 10)]"
proof -
  have n: "(4::nat) = Suc (Suc (Suc (Suc 0)))" by simp
  show ?thesis unfolding n by simp
qed

lemma zfill_6:
  "zfill 6 k = [digit_char (k div 100000 mod 10), digit_char (k div 10000 mod 10),
                digit_char (k div 1000 mod 10), digit_char (k div 100 mod 10),
                digit_char (k div 10 mod 10), digit_char (k mod 10)]"
proof -
  have n: "(6::nat) = Suc (Suc (Suc (Suc (Suc (Suc 0)))))" by simp
  show ?thesis unfolding n by simp
qed

lemma digit_of_simps:
  "digit_of CHR ''0'' = Some 0" "digit_of CHR ''1'' = Some 1" "digit_of CHR ''2'' = Some 2"
  "digit_of CHR ''3'' = Some 3" "digit_of CHR ''4'' = Some 4" "digit_of CHR ''5'' = Some 5"
  "digit_of CHR ''6'' = Some 6" "digit_of CHR ''7'' = Some 7" "digit_of CHR ''8'' = Some 8"
  "digit_of CHR ''9'' = Some 9"
  by (simp_all add: digit_of_def)

lemma parse_digits_2:
  "parse_digits 2 acc (a # b # s) =
     (case digit_of a of None \<Rightarrow> None
      | Some v \<Rightarrow> (case digit_of b of None \<Rightarrow> None | Some w \<Rightarrow> Some (10 * (10 * acc + v) + w, s)))"
proof -
  have n: "(2::nat) = Suc (Suc 0)" by simp
  show ?thesis unfolding n by (simp split: option.splits)
qed

lemma parse_digits_4:
  "parse_digits 4 acc (a # b # s) =
     (case digit_of a of None \<Rightarrow> None
      | Some v \<Rightarrow> (case digit_of b of None \<Rightarrow> None | Some w \<Rightarrow> parse_digits 2 (10 * (10 * acc + v) + w) s))"
proof -
  have n: "(4::nat) = Suc (Suc (Suc (Suc 0)))" "(2::nat) = Suc (Suc 0)" by simp_all
  show ?thesis unfolding n by (simp split: option.splits)
qed

lemmas parse_eval = timeConvert_def fromisoformat_def parse_isoformat_def parse_date_def
  parse_hms_def parse_tz_def parse_offset_def offset_us_def expect_def parse_digits_2 parse_digits_4
  digit_of_simps valid_datetime_def days_in_month_def DAYS_IN_MONTH_def

lemmas cal_eval = add_timedelta_def ymd2ord_def ord2ymd_def days_before_year_def
  days_before_month_def DAYS_BEFORE_MONTH_def DAYS_IN_MONTH_def is_leap_def Let_def

lemma timeConvert_sample: "timeConvert fromisoformat ''2026-01-20T00:00:00Z'' = Inr sample_time"
  by (simp add: parse_eval sample_time_def)

lemma timeConvert_sample_22h: "timeConvert fromisoformat ''2026-01-19T22:00:00Z'' = Inr sample_time_22h"
  by (simp add: parse_eval sample_time_22h_def)

lemma isoformat_sample: "isoformat sample_time = ''2026-01-20T00:00:00+00:00''"
  by (simp add: isoformat_def sample_time_def zfill_2 zfill_4 digit_char_def)

lemma valid_sample_time: "valid_datetime sample_time"
  by (simp add: valid_datetime_def days_in_month_def DAYS_IN_MONTH_def sample_time_def)

lemma timedelta_hours_2: "timedelta_hours (Fin 2) = Inr 7200000000"
  by (simp add: timedelta_hours_def round_half_even_def Let_def double_round_0)

lemma timedelta_hours_1e8: "timedelta_hours (Fin 100000000) = Inr 360000000000000000"
  by (simp add: timedelta_hours_def round_half_even_def Let_def double_round_0)

text \<open>
  The float \<open>1.9999999999\<close> is less than two, and \<^verbatim>\<open>timedelta\<close> rounds it to two
  hours: the fraction times 3600000000 is the float \<open>3599999999.64\<close>.
\<close>

lemma timedelta_hours_below_2:
  "timedelta_hours (Fin (double_round (19999999999 / 10 ^ 10))) = Inr 7200000000"
proof -
  have p: "double_round (1979120929798887890625 / 549755813888) = 7549747199245025 / 2097152"
    by (subst double_round_eq [where k = 31]) (simp_all add: round_half_even_def Let_def)
  show ?thesis
    unfolding double_hours timedelta_hours_def
    by (simp add: Let_def p round_half_even_def)
qed

lemma sample_time_minus_2h: "add_timedelta sample_time (- 7200000000) = Inr sample_time_22h"
  by (simp add: cal_eval sample_time_def sample_time_22h_def)

lemma dt_key_samples:
  "dt_key sample_time_22h \<le> dt_key sample_time"
  "dt_key sample_time_21h \<le> dt_key sample_time_22h"
  "dt_key sample_time_21h \<le> dt_key sample_time"
  "\<not> dt_key sample_time \<le> dt_key sample_time_22h"
  "\<not> dt_key sample_time_22h \<le> dt_key sample_time_21h"
  by (simp_all add: dt_key_def sample_time_def sample_time_22h_def sample_time_21h_def)

lemma dt_key_eq: "(dt_key a = dt_key b) = (a = b)"
  by (cases a, cases b) (auto simp: dt_key_def)

subsection \<open>The alert\<close>

lemma STRONG_FLARE_eq: "STRONG_FLARE = double_round (1 / 10 ^ 4)"
  by (simp add: STRONG_FLARE_def FLARE_OFFSETS_def)

lemma fle_trans: "fle a b \<Longrightarrow> fle b c \<Longrightarrow> fle a c"
  by (cases a; cases b; cases c) simp_all

lemma fle_refl: "a \<noteq> NaN \<Longrightarrow> fle a a"
  by (cases a) simp_all

lemma flt_imp_fle: "flt a b \<Longrightarrow> fle a b"
  by (cases a; cases b) simp_all

lemma not_flt_imp_fle: "a \<noteq> NaN \<Longrightarrow> b \<noteq> NaN \<Longrightarrow> \<not> flt a b \<Longrightarrow> fle b a"
  by (cases a; cases b) simp_all

lemma max_loop_in_set: "max_loop key b xs \<in> set (b # xs)"
proof (induction xs arbitrary: b)
  case Nil
  show ?case by simp
next
  case (Cons x xs)
  from Cons [of "if flt (key b) (key x) then x else b"] show ?case
    by (auto split: if_splits)
qed

text \<open>On a list without \<^verbatim>\<open>nan\<close>, \<^verbatim>\<open>max\<close> returns an item that no item exceeds.\<close>

lemma max_loop_greatest:
  assumes "\<forall>y \<in> set (b # xs). key y \<noteq> NaN" and "y \<in> set (b # xs)"
  shows "fle (key y) (key (max_loop key b xs))"
  using assms
proof (induction xs arbitrary: b y)
  case Nil
  then show ?case by (simp add: fle_refl)
next
  case (Cons x xs)
  let ?b = "if flt (key b) (key x) then x else b"
  from Cons.prems(1) have nan: "\<forall>z \<in> set (?b # xs). key z \<noteq> NaN" by simp
  have top: "fle (key ?b) (key (max_loop key ?b xs))"
    by (rule Cons.IH [OF nan]) simp
  from Cons.prems(1) have "fle (key b) (key ?b)" "fle (key x) (key ?b)"
    by (auto simp: fle_refl flt_imp_fle not_flt_imp_fle)
  with top have "fle (key b) (key (max_loop key ?b xs))" "fle (key x) (key (max_loop key ?b xs))"
    by (blast intro: fle_trans)+
  moreover have "fle (key y) (key (max_loop key ?b xs))" if "y \<in> set xs"
    by (rule Cons.IH [OF nan]) (use that in simp)
  ultimately show ?case using Cons.prems(2) by auto
qed

lemma x_flare_Alert_Cons:
  "x_flare_Alert (e # r) =
     (if fle (Fin (double_round (1 / 10 ^ 4))) (flux (max_loop flux e r))
      then [''STRONG ASS FLARE DETECTED''] else [])"
  by (simp add: x_flare_Alert_def is_x_flare_def STRONG_FLARE_eq Let_def)

text \<open>
  C6. The claim: for every list of samples, the alert is raised exactly when the list is
  not empty and its largest flux reaches the \<open>X\<close> threshold \<open>1e-4\<close>. The code does so on
  every list in which no flux is \<^verbatim>\<open>nan\<close>: nothing is printed for the empty list, the
  alert is printed exactly when a sample that no sample exceeds reaches the threshold,
  and so it is when the largest flux is \<open>2e-4\<close>. With a \<^verbatim>\<open>nan\<close> in the list the
  result depends on the order of the samples.
\<close>

theorem x_flare_Alert_iff:
  "x_flare_Alert [] = [] \<and>
   ((\<forall>e \<in> set es. flux e \<noteq> NaN) \<longrightarrow>
      (x_flare_Alert es \<noteq> []) =
        (es \<noteq> [] \<and>
         (\<exists>m \<in> set es. (\<forall>e \<in> set es. fle (flux e) (flux m)) \<and>
                        fle (Fin (double_round (1 / 10 ^ 4))) (flux m)))) \<and>
   ((\<exists>m \<in> set es. (\<forall>e \<in> set es. fle (flux e) (flux m)) \<and>
                   flux m = Fin (double_round (2 / 10 ^ 4))) \<longrightarrow>
      x_flare_Alert es = [''STRONG ASS FLARE DETECTED''])"
proof -
  have empty: "x_flare_Alert [] = []"
    by (simp add: x_flare_Alert_def)
  have reach: "x_flare_Alert es = [''STRONG ASS FLARE DETECTED'']"
    if m: "m \<in> set es" "\<forall>e \<in> set es. fle (flux e) (flux m)"
      "fle (Fin (double_round (1 / 10 ^ 4))) (flux m)" for m
  proof -
    from m(1) obtain e r where es: "es = e # r" by (cases es) auto
    have "max_loop flux e r \<in> set es"
      using max_loop_in_set [of flux e r] by (simp add: es)
    with m(2) have "fle (flux (max_loop flux e r)) (flux m)" by blast
    moreover have "fle (flux m) (flux (max_loop flux e r))"
    proof (rule max_loop_greatest)
      show "\<forall>y \<in> set (e # r). flux y \<noteq> NaN"
        using m(2) by (auto simp: es)
      show "m \<in> set (e # r)" using m(1) by (simp add: es)
    qed
    ultimately have "fle (Fin (double_round (1 / 10 ^ 4))) (flux (max_loop flux e r))"
      using m(3) by (blast intro: fle_trans)
    then show ?thesis by (simp add: es x_flare_Alert_Cons)
  qed
  have iff: "(x_flare_Alert es \<noteq> []) =
        (es \<noteq> [] \<and>
         (\<exists>m \<in> set es. (\<forall>e \<in> set es. fle (flux e) (flux m)) \<and>
                        fle (Fin (double_round (1 / 10 ^ 4))) (flux m)))"
    if nan: "\<forall>e \<in> set es. flux e \<noteq> NaN"
  proof (cases es)
    case Nil
    then show ?thesis by (simp add: empty)
  next
    case (Cons e r)
    show ?thesis
    proof
      assume "x_flare_Alert es \<noteq> []"
      then have a: "fle (Fin (double_round (1 / 10 ^ 4))) (flux (max_loop flux e r))"
        by (simp add: Cons x_flare_Alert_Cons split: if_splits)
      have "max_loop flux e r \<in> set es"
        using max_loop_in_set [of flux e r] by (simp add: Cons)
      moreover have "\<forall>y \<in> set es. fle (flux y) (flux (max_loop flux e r))"
        using max_loop_greatest [of e r flux] nan by (simp add: Cons)
      ultimately show "es \<noteq> [] \<and>
         (\<exists>m \<in> set es. (\<forall>e \<in> set es. fle (flux e) (flux m)) \<and>
                        fle (Fin (double_round (1 / 10 ^ 4))) (flux m))"
        using a Cons by blast
    next
      assume "es \<noteq> [] \<and>
         (\<exists>m \<in> set es. (\<forall>e \<in> set es. fle (flux e) (flux m)) \<and>
                        fle (Fin (double_round (1 / 10 ^ 4))) (flux m))"
      then show "x_flare_Alert es \<noteq> []" using reach by auto
    qed
  qed
  have "fle (Fin (double_round (1 / 10 ^ 4))) (Fin (double_round (2 / 10 ^ 4)))"
    by (simp add: double_simps)
  with reach have "x_flare_Alert es = [''STRONG ASS FLARE DETECTED'']"
    if "\<exists>m \<in> set es. (\<forall>e \<in> set es. fle (flux e) (flux m)) \<and>
                   flux m = Fin (double_round (2 / 10 ^ 4))"
    using that by metis
  with empty iff show ?thesis by blast
qed

lemmas sample_entries = sample_entry_def sample_entry_21h_def sample_entry_22h_def
  sample_entry_nan_def

theorem x_flare_Alert_iff_witness:
  "flux sample_entry_21h \<noteq> NaN \<and> flux sample_entry_22h \<noteq> NaN \<and>
   fle (flux sample_entry_21h) (flux sample_entry_22h) \<and>
   fle (flux sample_entry_22h) (flux sample_entry_22h) \<and>
   flux sample_entry_22h = Fin (double_round (2 / 10 ^ 4)) \<and>
   x_flare_Alert [sample_entry_21h, sample_entry_22h] = [''STRONG ASS FLARE DETECTED''] \<and>
   flux sample_entry \<noteq> NaN \<and>
   x_flare_Alert [sample_entry_21h, sample_entry] = []"
proof -
  have a: "fle (flux sample_entry_21h) (flux sample_entry_22h)"
    "fle (flux sample_entry_22h) (flux sample_entry_22h)"
    "flux sample_entry_22h = Fin (double_round (2 / 10 ^ 4))"
    by (simp_all add: sample_entries double_simps)
  then have "x_flare_Alert [sample_entry_21h, sample_entry_22h] = [''STRONG ASS FLARE DETECTED'']"
    using x_flare_Alert_iff [of "[sample_entry_21h, sample_entry_22h]"] by simp
  moreover have n: "flux sample_entry_21h \<noteq> NaN" "flux sample_entry_22h \<noteq> NaN"
    "flux sample_entry \<noteq> NaN"
    by (simp_all add: sample_entries)
  moreover have "x_flare_Alert [sample_entry_21h, sample_entry] = []"
    using x_flare_Alert_iff [of "[sample_entry_21h, sample_entry]"] n
    by (simp add: sample_entries double_simps)
  ultimately show ?thesis using a by blast
qed

theorem x_flare_Alert_nan_order:
  "x_flare_Alert [sample_entry_nan, sample_entry_22h] = [] \<and>
   x_flare_Alert [sample_entry_22h, sample_entry_nan] = [''STRONG ASS FLARE DETECTED'']"
  by (simp add: x_flare_Alert_Cons sample_entries double_simps)

subsection \<open>The summary\<close>

lemma summary_sample:
  "summary [sample_entry] =
     Inr \<lparr>start_time_utc = ''2026-01-20T00:00:00+00:00'',
          end_time_utc = ''2026-01-20T00:00:00+00:00'', nodes = 1,
          current_flux = Fin (double_round (55 / 10 ^ 7)),
          current_class = ''1e-08550.00'', max_flux = ''1e-08550.00'',
          max_class = ''1e-08550.00''\<rparr>"
proof -
  have "summary [sample_entry] =
     Inr \<lparr>start_time_utc = isoformat sample_time,
          end_time_utc = isoformat sample_time, nodes = 1,
          current_flux = Fin (double_round (55 / 10 ^ 7)),
          current_class = flare_class (Fin (double_round (55 / 10 ^ 7))),
          max_flux = flare_class (Fin (double_round (55 / 10 ^ 7))),
          max_class = flare_class (Fin (double_round (55 / 10 ^ 7)))\<rparr>"
    by (simp add: summary_def sample_entry_def Let_def del: power_numeral)
  then show ?thesis unfolding flare_class_sample isoformat_sample .
qed

text \<open>
  The fields of the summary of any list that is not empty. The start is the time of the
  first sample and the end the time of the last, both printed by \<open>isoformat\<close>; the two
  classes and the value under \<open>"max_flux"\<close> are labels of \<open>flare_class\<close>, and the value
  under \<open>"max_flux"\<close> is the one under \<open>"max_class"\<close>.
\<close>

lemma summary_fields:
  assumes "es \<noteq> []"
  shows "\<exists>r. summary es = Inr r \<and>
           start_time_utc r = isoformat (time_utc (hd es)) \<and>
           end_time_utc r = isoformat (time_utc (last es)) \<and>
           nodes r = length es \<and>
           current_flux r = flux (last es) \<and>
           current_class r = flare_class (flux (last es)) \<and>
           max_flux r = flare_class (max_loop (\<lambda>v. v) (flux (hd es)) (map flux (tl es))) \<and>
           max_class r = max_flux r"
proof -
  from assms obtain e r where es: "es = e # r" by (cases es) auto
  show ?thesis
    by (simp add: summary_def es Let_def)
qed

text \<open>
  C2. The claim: the summary of a list that is not empty holds the largest flux of the
  list as its maximum flux, so that on a single sample the current flux and the maximum
  flux are equal. In the code the value under \<open>"max_flux"\<close> is the label of the largest
  flux, \<^verbatim>\<open>flare_class(max_flux)\<close>: for the single sample of flux \<open>5.5e-6\<close> the current
  flux is the float \<open>5.5e-6\<close> and the maximum flux is the string \<open>1e-08550.00\<close>.
\<close>

theorem summary_max_flux_is_label:
  "summary [sample_entry] =
     Inr \<lparr>start_time_utc = ''2026-01-20T00:00:00+00:00'',
          end_time_utc = ''2026-01-20T00:00:00+00:00'', nodes = 1,
          current_flux = Fin (double_round (55 / 10 ^ 7)),
          current_class = ''1e-08550.00'', max_flux = ''1e-08550.00'',
          max_class = ''1e-08550.00''\<rparr>"
  by (rule summary_sample)

text \<open>
  C8. \<open>summary\<close> raises exactly on the empty list (the \<^verbatim>\<open>ValueError\<close> of the code is
  the only error it has), and returns a summary for every other list.
\<close>

theorem summary_raises_iff_empty:
  "(summary es = Inl ValueError) = (es = []) \<and>
   (es \<noteq> [] \<longrightarrow> (\<exists>r. summary es = Inr r)) \<and>
   (\<forall>e. summary es = Inl e \<longrightarrow> e = ValueError \<and> es = [])"
  by (cases es) (simp_all add: summary_def Let_def)

theorem summary_raises_iff_empty_witness:
  "summary [] = Inl ValueError \<and> [sample_entry] \<noteq> [] \<and> (\<exists>r. summary [sample_entry] = Inr r)"
  using summary_raises_iff_empty [of "[]"] summary_raises_iff_empty [of "[sample_entry]"]
  by simp

subsection \<open>Reading the raw records\<close>

lemma read_entry_sample:
  "read_entry fromisoformat sample_record =
     Inr \<lparr>time_utc = sample_time, flux = Fin (double_round (1 / 10 ^ 6)),
          observed_flux = Fin (double_round (1 / 10 ^ 6))\<rparr>"
  by (simp add: read_entry_def sample_record_def sample_time_tag_def sample_number_def
      timeConvert_sample del: power_numeral)

lemma read_entry_sample_22h:
  "read_entry fromisoformat sample_record_22h =
     Inr \<lparr>time_utc = sample_time_22h, flux = Fin (double_round (1 / 10 ^ 6)),
          observed_flux = Fin (double_round (2 / 10 ^ 6))\<rparr>"
  by (simp add: read_entry_def sample_record_22h_def sample_time_tag_22h_def sample_number_def
      sample_number_2_def timeConvert_sample_22h del: power_numeral)

lemma read_entry_unreadable: "read_entry fromisoformat sample_record_unreadable = Inl ValueError"
  by (simp add: read_entry_def sample_record_unreadable_def sample_time_tag_def
      sample_number_def sample_text_def timeConvert_sample)

lemma split_entries_samples:
  "split_entries fromisoformat [sample_record_unreadable, sample_record, sample_record_22h] tk fk =
     [\<lparr>time_utc = sample_time_22h, flux = Fin (double_round (1 / 10 ^ 6)),
       observed_flux = Fin (double_round (2 / 10 ^ 6))\<rparr>,
      \<lparr>time_utc = sample_time, flux = Fin (double_round (1 / 10 ^ 6)),
       observed_flux = Fin (double_round (1 / 10 ^ 6))\<rparr>]"
  by (simp add: split_entries_def read_entry_sample read_entry_sample_22h read_entry_unreadable
      dt_key_samples del: power_numeral)

text \<open>The loop keeps the records in the order of the input.\<close>

lemma read_entries_map_filter:
  "read_entries fromiso data =
   List.map_filter (\<lambda>i. case read_entry fromiso i of Inl e \<Rightarrow> None | Inr entry \<Rightarrow> Some entry) data"
  by (induction data) (simp_all add: map_filter_simps split: sum.splits)

lemma read_entries_append:
  "read_entries fromiso (xs @ ys) = read_entries fromiso xs @ read_entries fromiso ys"
  by (induction xs) (simp_all split: sum.splits)

text \<open>What one record adds to the output, wherever it stands in the input.\<close>

lemma split_entries_insert:
  "read_entry fromiso i = Inr entry \<Longrightarrow>
     mset (split_entries fromiso (before @ i # after) time_key flux_key)
       = add_mset entry (mset (split_entries fromiso (before @ after) time_key flux_key))"
  "read_entry fromiso i = Inl e \<Longrightarrow>
     split_entries fromiso (before @ i # after) time_key flux_key
       = split_entries fromiso (before @ after) time_key flux_key"
  by (simp_all add: split_entries_def read_entries_append)

text \<open>
  C3. The claim: a record whose timestamp and flux parse gives a sample, whose
  \<open>observed_flux\<close> is the parsed secondary field when that is present and readable, and
  the primary flux when it is absent or unreadable. The code does so when the field is
  readable and when it is absent: wherever the record stands in the input, and whatever
  the other records are, the output has that one sample more than it has without the
  record. A field that is present and unreadable raises inside the \<^verbatim>\<open>try\<close>, and the
  record is passed over like any other that fails to parse: the output is what it is
  without the record. This holds for every behaviour of \<^verbatim>\<open>fromisoformat\<close>.
\<close>

theorem split_entries_observed_flux:
  assumes "i ''time_tag'' = Some tv" and "timeConvert fromiso (str_of tv) = Inr t"
    and "i ''flux'' = Some fv" and "float_of fv = Inr f"
  shows "(i ''observed_flux'' = None \<longrightarrow>
            mset (split_entries fromiso (before @ i # after) time_key flux_key)
              = add_mset \<lparr>time_utc = t, flux = f, observed_flux = f\<rparr>
                  (mset (split_entries fromiso (before @ after) time_key flux_key))) \<and>
         (\<forall>ov obs. i ''observed_flux'' = Some ov \<and> float_of ov = Inr obs \<longrightarrow>
            mset (split_entries fromiso (before @ i # after) time_key flux_key)
              = add_mset \<lparr>time_utc = t, flux = f, observed_flux = obs\<rparr>
                  (mset (split_entries fromiso (before @ after) time_key flux_key))) \<and>
         (\<forall>ov e. i ''observed_flux'' = Some ov \<and> float_of ov = Inl e \<longrightarrow>
            split_entries fromiso (before @ i # after) time_key flux_key
              = split_entries fromiso (before @ after) time_key flux_key)"
proof -
  have "read_entry fromiso i = Inr \<lparr>time_utc = t, flux = f, observed_flux = f\<rparr>"
    if "i ''observed_flux'' = None"
    using assms that by (simp add: read_entry_def)
  moreover have "read_entry fromiso i = Inr \<lparr>time_utc = t, flux = f, observed_flux = obs\<rparr>"
    if "i ''observed_flux'' = Some ov" "float_of ov = Inr obs" for ov obs
    using assms that by (simp add: read_entry_def)
  moreover have "read_entry fromiso i = Inl e"
    if "i ''observed_flux'' = Some ov" "float_of ov = Inl e" for ov e
    using assms that by (simp add: read_entry_def)
  ultimately show ?thesis
    by (auto simp: split_entries_insert)
qed

lemmas sample_records = sample_record_def sample_record_22h_def sample_record_unreadable_def
  sample_time_tag_def sample_time_tag_22h_def sample_number_def sample_number_2_def
  sample_text_def

theorem split_entries_observed_flux_witness:
  "sample_record ''time_tag'' = Some sample_time_tag \<and>
   timeConvert fromisoformat (str_of sample_time_tag) = Inr sample_time \<and>
   sample_record ''flux'' = Some sample_number \<and>
   float_of sample_number = Inr (Fin (double_round (1 / 10 ^ 6))) \<and>
   sample_record ''observed_flux'' = None \<and>
   mset (split_entries fromisoformat
           ([sample_record_unreadable] @ sample_record # [sample_record_22h]) ''time_tag'' ''flux'')
     = add_mset \<lparr>time_utc = sample_time, flux = Fin (double_round (1 / 10 ^ 6)),
                  observed_flux = Fin (double_round (1 / 10 ^ 6))\<rparr>
         (mset (split_entries fromisoformat ([sample_record_unreadable] @ [sample_record_22h])
                  ''time_tag'' ''flux'')) \<and>
   sample_record_22h ''time_tag'' = Some sample_time_tag_22h \<and>
   timeConvert fromisoformat (str_of sample_time_tag_22h) = Inr sample_time_22h \<and>
   sample_record_22h ''flux'' = Some sample_number \<and>
   sample_record_22h ''observed_flux'' = Some sample_number_2 \<and>
   float_of sample_number_2 = Inr (Fin (double_round (2 / 10 ^ 6))) \<and>
   mset (split_entries fromisoformat
           ([sample_record_unreadable, sample_record] @ sample_record_22h # []) ''time_tag'' ''flux'')
     = add_mset \<lparr>time_utc = sample_time_22h, flux = Fin (double_round (1 / 10 ^ 6)),
                  observed_flux = Fin (double_round (2 / 10 ^ 6))\<rparr>
         (mset (split_entries fromisoformat ([sample_record_unreadable, sample_record] @ [])
                  ''time_tag'' ''flux'')) \<and>
   sample_record_unreadable ''observed_flux'' = Some sample_text \<and>
   float_of sample_text = Inl ValueError \<and>
   split_entries fromisoformat ([] @ sample_record_unreadable # [sample_record, sample_record_22h])
       ''time_tag'' ''flux''
     = split_entries fromisoformat ([] @ [sample_record, sample_record_22h]) ''time_tag'' ''flux'' \<and>
   split_entries fromisoformat [sample_record_unreadable, sample_record, sample_record_22h]
       ''time_tag'' ''flux''
     = [\<lparr>time_utc = sample_time_22h, flux = Fin (double_round (1 / 10 ^ 6)),
         observed_flux = Fin (double_round (2 / 10 ^ 6))\<rparr>,
        \<lparr>time_utc = sample_time, flux = Fin (double_round (1 / 10 ^ 6)),
         observed_flux = Fin (double_round (1 / 10 ^ 6))\<rparr>]"
proof -
  have t: "timeConvert fromisoformat (str_of sample_time_tag) = Inr sample_time"
    "timeConvert fromisoformat (str_of sample_time_tag_22h) = Inr sample_time_22h"
    by (simp_all add: sample_time_tag_def sample_time_tag_22h_def timeConvert_sample
        timeConvert_sample_22h)
  have a: "sample_record ''time_tag'' = Some sample_time_tag"
    "sample_record ''flux'' = Some sample_number"
    "sample_record ''observed_flux'' = None"
    by (simp_all add: sample_record_def)
  have b: "sample_record_22h ''time_tag'' = Some sample_time_tag_22h"
    "sample_record_22h ''flux'' = Some sample_number"
    "sample_record_22h ''observed_flux'' = Some sample_number_2"
    by (simp_all add: sample_record_22h_def)
  have c: "sample_record_unreadable ''time_tag'' = Some sample_time_tag"
    "sample_record_unreadable ''flux'' = Some sample_number"
    "sample_record_unreadable ''observed_flux'' = Some sample_text"
    by (simp_all add: sample_record_unreadable_def)
  have f: "float_of sample_number = Inr (Fin (double_round (1 / 10 ^ 6)))"
    "float_of sample_number_2 = Inr (Fin (double_round (2 / 10 ^ 6)))"
    "float_of sample_text = Inl ValueError"
    by (simp_all add: sample_number_def sample_number_2_def sample_text_def)
  note absent = split_entries_observed_flux [OF a(1) t(1) a(2) f(1),
      of "[sample_record_unreadable]" "[sample_record_22h]" "''time_tag''" "''flux''"]
  note readable = split_entries_observed_flux [OF b(1) t(2) b(2) f(1),
      of "[sample_record_unreadable, sample_record]" "[]" "''time_tag''" "''flux''"]
  note unreadable = split_entries_observed_flux [OF c(1) t(1) c(2) f(1),
      of "[]" "[sample_record, sample_record_22h]" "''time_tag''" "''flux''"]
  from absent a(3) have 1: "mset (split_entries fromisoformat
           ([sample_record_unreadable] @ sample_record # [sample_record_22h]) ''time_tag'' ''flux'')
     = add_mset \<lparr>time_utc = sample_time, flux = Fin (double_round (1 / 10 ^ 6)),
                  observed_flux = Fin (double_round (1 / 10 ^ 6))\<rparr>
         (mset (split_entries fromisoformat ([sample_record_unreadable] @ [sample_record_22h])
                  ''time_tag'' ''flux''))"
    by blast
  from readable b(3) f(2) have 2: "mset (split_entries fromisoformat
           ([sample_record_unreadable, sample_record] @ sample_record_22h # []) ''time_tag'' ''flux'')
     = add_mset \<lparr>time_utc = sample_time_22h, flux = Fin (double_round (1 / 10 ^ 6)),
                  observed_flux = Fin (double_round (2 / 10 ^ 6))\<rparr>
         (mset (split_entries fromisoformat ([sample_record_unreadable, sample_record] @ [])
                  ''time_tag'' ''flux''))"
    by blast
  from unreadable c(3) f(3) have 3:
    "split_entries fromisoformat ([] @ sample_record_unreadable # [sample_record, sample_record_22h])
       ''time_tag'' ''flux''
     = split_entries fromisoformat ([] @ [sample_record, sample_record_22h]) ''time_tag'' ''flux''"
    by blast
  show ?thesis
    using 1 2 3 t a b c f split_entries_samples [of "''time_tag''" "''flux''"]
    by (intro conjI) assumption+
qed

theorem observed_flux_unreadable_skipped:
  "sample_record_unreadable ''time_tag'' = Some sample_time_tag \<and>
   timeConvert fromisoformat (str_of sample_time_tag) = Inr sample_time \<and>
   sample_record_unreadable ''flux'' = Some sample_number \<and>
   float_of sample_number = Inr (Fin (double_round (1 / 10 ^ 6))) \<and>
   sample_record_unreadable ''observed_flux'' = Some sample_text \<and>
   float_of sample_text = Inl ValueError \<and>
   split_entries fromisoformat [sample_record_unreadable] ''time_tag'' ''flux'' = []"
proof -
  have "split_entries fromisoformat [sample_record_unreadable] ''time_tag'' ''flux'' = []"
    by (simp add: split_entries_def read_entry_unreadable)
  moreover have "timeConvert fromisoformat (str_of sample_time_tag) = Inr sample_time"
    by (simp add: sample_time_tag_def timeConvert_sample)
  ultimately show ?thesis
    by (simp add: sample_record_unreadable_def sample_number_def sample_text_def)
qed

text \<open>
  C5. The output of \<open>split_entries\<close> is sorted by time, and the samples of one timestamp
  stand in it as they stand in the list that the loop has built, which holds the samples
  of the readable records in the order of the input.
\<close>

theorem split_entries_sorted_stable:
  "sorted (map (\<lambda>i. dt_key (time_utc i)) (split_entries fromiso data time_key flux_key)) \<and>
   (\<forall>t. filter (\<lambda>i. time_utc i = t) (split_entries fromiso data time_key flux_key)
        = filter (\<lambda>i. time_utc i = t) (read_entries fromiso data)) \<and>
   read_entries fromiso data
     = List.map_filter
         (\<lambda>i. case read_entry fromiso i of Inl e \<Rightarrow> None | Inr entry \<Rightarrow> Some entry) data"
proof -
  have "filter (\<lambda>i. time_utc i = t) (split_entries fromiso data time_key flux_key)
        = filter (\<lambda>i. time_utc i = t) (read_entries fromiso data)" for t
    using sort_key_stable [of "\<lambda>i. dt_key (time_utc i)" "dt_key t" "read_entries fromiso data"]
    by (simp add: split_entries_def dt_key_eq)
  then show ?thesis
    using read_entries_map_filter [of fromiso data] by (simp add: split_entries_def)
qed

theorem split_entries_sorted_stable_witness:
  "sorted (map (\<lambda>i. dt_key (time_utc i))
     (split_entries fromisoformat [sample_record_unreadable, sample_record, sample_record_22h]
        ''time_tag'' ''flux'')) \<and>
   split_entries fromisoformat [sample_record_unreadable, sample_record, sample_record_22h]
       ''time_tag'' ''flux''
     = [\<lparr>time_utc = sample_time_22h, flux = Fin (double_round (1 / 10 ^ 6)),
         observed_flux = Fin (double_round (2 / 10 ^ 6))\<rparr>,
        \<lparr>time_utc = sample_time, flux = Fin (double_round (1 / 10 ^ 6)),
         observed_flux = Fin (double_round (1 / 10 ^ 6))\<rparr>]"
  using split_entries_sorted_stable
    [of fromisoformat "[sample_record_unreadable, sample_record, sample_record_22h]"
      "''time_tag''" "''flux''"]
    split_entries_samples [of "''time_tag''" "''flux''"]
  by blast

text \<open>
  C10. The parameters \<^verbatim>\<open>time_key\<close> and \<^verbatim>\<open>flux_key\<close> have no effect: whatever they
  are, \<open>split_entries\<close> returns what it returns with its defaults.
\<close>

theorem split_entries_ignores_keys:
  "split_entries fromiso data time_key flux_key = split_entries fromiso data ''time_tag'' ''flux''"
  by (simp add: split_entries_def)

theorem split_entries_ignores_keys_witness:
  "split_entries fromisoformat [sample_record, sample_record_22h] ''when'' ''value''
     = split_entries fromisoformat [sample_record, sample_record_22h] ''time_tag'' ''flux''"
  using split_entries_ignores_keys
    [of fromisoformat "[sample_record, sample_record_22h]" "''when''" "''value''"]
  by simp

subsection \<open>The window\<close>

lemma getLastNHoras_samples:
  "getLastNHoras [sample_entry_21h, sample_entry_22h, sample_entry] (Fin 2)
     = Inr [sample_entry_22h, sample_entry]"
  by (simp add: getLastNHoras_def timedelta_hours_2 sample_time_minus_2h dt_key_samples
      sample_entry_def sample_entry_21h_def sample_entry_22h_def del: power_numeral)

lemma sorted_last_greatest:
  assumes "sorted (map key xs)" and "x \<in> set xs"
  shows "key x \<le> key (last xs)"
proof -
  from assms(2) obtain k where k: "k < length xs" "xs ! k = x"
    by (auto simp: in_set_conv_nth)
  then have ne: "xs \<noteq> []" by auto
  then have l: "last xs = xs ! (length xs - 1)"
    by (rule last_conv_nth)
  have "map key xs ! k \<le> map key xs ! (length xs - 1)"
    using assms(1) k(1) by (intro sorted_nth_mono) auto
  with k l ne show ?thesis by simp
qed

text \<open>
  C4. The claim: for every list that is not empty and sorted by time, and every number of
  hours, \<open>getLastNHoras\<close> returns the samples whose time lies between the anchor less the
  hours and the anchor, both included, where the anchor is the time of the last sample;
  the empty list gives the empty list. The code subtracts \<^verbatim>\<open>timedelta(hours=hours)\<close>,
  which is the hours rounded to a whole number of microseconds, and the subtraction is
  defined only within the years 1 to 9999. Whenever the \<^verbatim>\<open>timedelta\<close> and the
  subtraction give a value, the result is the samples between the start so computed and
  the anchor, in their order, and in a sorted list the anchor is the latest time.
\<close>

theorem getLastNHoras_window:
  "getLastNHoras [] hours = Inr [] \<and>
   (entries \<noteq> [] \<and> sorted (map (\<lambda>i. dt_key (time_utc i)) entries) \<and>
    timedelta_hours hours = Inr delta \<and>
    add_timedelta (time_utc (last entries)) (- delta) = Inr start \<longrightarrow>
      getLastNHoras entries hours
        = Inr (filter (\<lambda>i. dt_key start \<le> dt_key (time_utc i)
                          \<and> dt_key (time_utc i) \<le> dt_key (time_utc (last entries))) entries) \<and>
      (\<forall>i \<in> set entries. dt_key (time_utc i) \<le> dt_key (time_utc (last entries))))"
proof -
  have "dt_key (time_utc i) \<le> dt_key (time_utc (last entries))"
    if "sorted (map (\<lambda>i. dt_key (time_utc i)) entries)" "i \<in> set entries" for i
    using sorted_last_greatest [of "\<lambda>i. dt_key (time_utc i)" entries i] that by simp
  then show ?thesis
    by (auto simp: getLastNHoras_def Let_def)
qed

theorem getLastNHoras_window_witness:
  "[sample_entry_21h, sample_entry_22h, sample_entry] \<noteq> [] \<and>
   sorted (map (\<lambda>i. dt_key (time_utc i)) [sample_entry_21h, sample_entry_22h, sample_entry]) \<and>
   timedelta_hours (Fin 2) = Inr 7200000000 \<and>
   add_timedelta (time_utc (last [sample_entry_21h, sample_entry_22h, sample_entry]))
     (- 7200000000) = Inr sample_time_22h \<and>
   getLastNHoras [sample_entry_21h, sample_entry_22h, sample_entry] (Fin 2)
     = Inr [sample_entry_22h, sample_entry]"
proof -
  have h: "sorted (map (\<lambda>i. dt_key (time_utc i)) [sample_entry_21h, sample_entry_22h, sample_entry])"
    "add_timedelta (time_utc (last [sample_entry_21h, sample_entry_22h, sample_entry]))
       (- 7200000000) = Inr sample_time_22h"
    by (simp_all add: sample_entry_def sample_entry_21h_def sample_entry_22h_def dt_key_samples
        sample_time_minus_2h)
  have "filter (\<lambda>i. dt_key sample_time_22h \<le> dt_key (time_utc i)
            \<and> dt_key (time_utc i)
                \<le> dt_key (time_utc (last [sample_entry_21h, sample_entry_22h, sample_entry])))
          [sample_entry_21h, sample_entry_22h, sample_entry]
        = [sample_entry_22h, sample_entry]"
    by (simp add: sample_entry_def sample_entry_21h_def sample_entry_22h_def dt_key_samples
        del: power_numeral)
  with getLastNHoras_window
         [of "Fin 2" "[sample_entry_21h, sample_entry_22h, sample_entry]" 7200000000
           sample_time_22h]
       h timedelta_hours_2
  show ?thesis by simp
qed

text \<open>
  Where the claim fails. Hours of \<open>1e8\<close> put the start of the window before the year 1,
  and the code raises. Hours of \<open>1.9999999999\<close>, a float less than two, are rounded to
  two hours, and the code returns the sample that lies exactly two hours before the
  anchor.
\<close>

theorem getLastNHoras_overflow:
  "getLastNHoras [sample_entry] (Fin 100000000) = Inl OverflowError \<and>
   double_round (19999999999 / 10 ^ 10) < 2 \<and>
   add_timedelta sample_time (- 7200000000) = Inr sample_time_22h \<and>
   getLastNHoras [sample_entry_22h, sample_entry] (Fin (double_round (19999999999 / 10 ^ 10)))
     = Inr [sample_entry_22h, sample_entry]"
proof -
  have at: "add_timedelta sample_time (- 360000000000000000) = Inl OverflowError"
    by (simp add: cal_eval sample_time_def)
  have a: "getLastNHoras [sample_entry] (Fin 100000000) = Inl OverflowError"
    by (simp add: getLastNHoras_def timedelta_hours_1e8 at sample_entry_def)
  have b: "double_round (19999999999 / 10 ^ 10) < 2"
    by (simp add: double_simps)
  have c: "getLastNHoras [sample_entry_22h, sample_entry]
             (Fin (double_round (19999999999 / 10 ^ 10)))
           = Inr [sample_entry_22h, sample_entry]"
    unfolding getLastNHoras_def timedelta_hours_below_2
    by (simp add: sample_time_minus_2h dt_key_samples sample_entry_def sample_entry_22h_def
        del: power_numeral)
  from a b c sample_time_minus_2h show ?thesis by simp
qed

subsection \<open>Printing a timestamp and reading it back\<close>

lemma digit_of_digit_char: "d < 10 \<Longrightarrow> digit_of (digit_char d) = Some d"
proof -
  assume "d < 10"
  then have "d = 0 \<or> d = 1 \<or> d = 2 \<or> d = 3 \<or> d = 4 \<or> d = 5 \<or> d = 6 \<or> d = 7 \<or> d = 8 \<or> d = 9"
    by arith
  then show ?thesis
    by (elim disjE) (simp_all add: digit_of_simps digit_char_def)
qed

lemma parse_digits_zfill:
  "parse_digits n acc (zfill n k @ rest) = Some (acc * 10 ^ n + k mod 10 ^ n, rest)"
proof (induction n arbitrary: acc)
  case 0
  show ?case by simp
next
  case (Suc n)
  have d: "digit_of (digit_char (k div 10 ^ n mod 10)) = Some (k div 10 ^ n mod 10)"
    by (rule digit_of_digit_char) simp
  have "k mod (10 ^ n * 10) = 10 ^ n * (k div 10 ^ n mod 10) + k mod 10 ^ n"
    by (rule mod_mult2_eq)
  then have "k mod 10 ^ Suc n = 10 ^ n * (k div 10 ^ n mod 10) + k mod 10 ^ n"
    by (simp add: mult.commute)
  then show ?case
    by (simp add: d Suc.IH algebra_simps)
qed

lemma parse_digits_zfill_lt:
  "k < 10 ^ n \<Longrightarrow> parse_digits n 0 (zfill n k @ rest) = Some (k, rest)"
  by (simp add: parse_digits_zfill)

lemma parse_tz_utc: "parse_tz ''+00:00'' = Some (Some 0)"
  by (simp add: parse_tz_def parse_offset_def offset_us_def expect_def parse_digits_2 digit_of_simps)

lemma days_in_month_le: "days_in_month y m \<le> 31" if "1 \<le> m" "m \<le> 12"
proof -
  from that have "m = 1 \<or> m = 2 \<or> m = 3 \<or> m = 4 \<or> m = 5 \<or> m = 6 \<or> m = 7 \<or> m = 8 \<or> m = 9 \<or> m = 10 \<or> m = 11 \<or> m = 12"
    by arith
  then show ?thesis
    by (elim disjE) (simp_all add: days_in_month_def DAYS_IN_MONTH_def)
qed

lemma parse_isoformat_isoformat:
  assumes "valid_datetime d"
  shows "parse_isoformat (isoformat d) = Some (d, Some 0)"
proof -
  from assms have b: "year d < 10 ^ 4" "month d < 10 ^ 2" "day d < 10 ^ 2" "hour d < 10 ^ 2"
    "minute d < 10 ^ 2" "second d < 10 ^ 2" "microsecond d < 10 ^ 6"
    using days_in_month_le [of "month d" "year d"] by (auto simp: valid_datetime_def)
  have date: "parse_date (isoformat d) =
      Some ((year d, month d, day d), ''T'' @ zfill 2 (hour d) @ '':'' @ zfill 2 (minute d) @ '':''
        @ zfill 2 (second d) @ (if microsecond d = 0 then [] else ''.'' @ zfill 6 (microsecond d))
        @ ''+00:00'')"
    unfolding parse_date_def isoformat_def
    by (simp add: parse_digits_zfill_lt [OF b(1)] parse_digits_zfill_lt [OF b(2)]
        parse_digits_zfill_lt [OF b(3)] expect_def del: zfill.simps)
  have frac: "parse_fraction (zfill 6 (microsecond d) @ ''+00:00'') = Some (microsecond d, ''+00:00'')"
    by (simp add: parse_fraction_def parse_digits_zfill_lt [OF b(7)] del: zfill.simps)
  have hms: "parse_hms (zfill 2 (hour d) @ '':'' @ zfill 2 (minute d) @ '':''
        @ zfill 2 (second d) @ (if microsecond d = 0 then [] else ''.'' @ zfill 6 (microsecond d))
        @ ''+00:00'') = Some ((hour d, minute d, second d, microsecond d), ''+00:00'')"
    unfolding parse_hms_def
    using frac
    by (simp add: parse_digits_zfill_lt [OF b(4)] parse_digits_zfill_lt [OF b(5)]
        parse_digits_zfill_lt [OF b(6)] expect_def del: zfill.simps)
  show ?thesis
    unfolding parse_isoformat_def date
    using hms by (simp add: parse_tz_utc del: zfill.simps)
qed

lemma last_isoformat: "isoformat d \<noteq> [] \<and> last (isoformat d) = CHR ''0''"
  by (simp add: isoformat_def)

text \<open>
  C9. For every datetime \<open>d\<close> in UTC, \<open>timeConvert\<close> reads the string that
  \<open>isoformat\<close> prints for \<open>d\<close> back as \<open>d\<close>; and \<open>timeConvert\<close> of a string that
  ends in \<open>Z\<close> is \<open>timeConvert\<close> of the string with \<open>+00:00\<close> in place of the \<open>Z\<close>,
  whether that is a timestamp or an error, and whatever \<^verbatim>\<open>fromisoformat\<close> reads.
\<close>

theorem timeConvert_isoformat:
  "(valid_datetime d \<longrightarrow> timeConvert fromisoformat (isoformat d) = Inr d) \<and>
   timeConvert fromiso (s @ ''Z'') = timeConvert fromiso (s @ ''+00:00'')"
proof -
  have "timeConvert fromisoformat (isoformat d) = Inr d" if "valid_datetime d"
    using that last_isoformat [of d]
    by (simp add: timeConvert_def fromisoformat_def parse_isoformat_isoformat)
  moreover have "timeConvert fromiso (s @ ''Z'') = timeConvert fromiso (s @ ''+00:00'')"
    by (simp add: timeConvert_def)
  ultimately show ?thesis by blast
qed

theorem timeConvert_isoformat_witness:
  "valid_datetime sample_time \<and>
   timeConvert fromisoformat (isoformat sample_time) = Inr sample_time \<and>
   timeConvert fromisoformat ''2026-01-20T00:00:00Z''
     = timeConvert fromisoformat ''2026-01-20T00:00:00+00:00'' \<and>
   timeConvert fromisoformat ''2026-01-20T00:00:00+00:00'' = Inr sample_time"
  using timeConvert_isoformat [of sample_time fromisoformat "''2026-01-20T00:00:00''"]
    valid_sample_time timeConvert_sample
  by simp

end
